theory Spec2Isabelle
  imports Complex_Main
begin

section \<open>Data model\<close>

text \<open>
  The script \<^verbatim>\<open>22071718.py\<close> loads a CSV table of merchandise trade statistics with
  pandas and draws four charts with matplotlib.  The table is a pandas DataFrame: a row
  index and an ordered collection of named columns.  A cell holds either text or a
  binary64 number (a missing value is the number NaN).
\<close>

datatype float64 = Finite rat | NegZero | PInf | NInf | NaN

datatype cell = Str string | Num float64

datatype py_error =
    KeyError string
  | IndexError
  | ValueError
  | FileNotFoundError
  | ParserError

record dataframe =
  index :: "nat list"
  cols :: "(string \<times> cell list) list"

definition columns :: "dataframe \<Rightarrow> string list" where
  "columns df = map fst (cols df)"

definition nrows :: "dataframe \<Rightarrow> nat" where
  "nrows df = length (index df)"

text \<open>Every column of a DataFrame has one cell per index entry.\<close>

definition wf_dataframe :: "dataframe \<Rightarrow> bool" where
  "wf_dataframe df = list_all (\<lambda>c. length (snd c) = length (index df)) (cols df)"

section \<open>The loader \<^verbatim>\<open>read_export_import_data\<close>\<close>

text \<open>
  \<^verbatim>\<open>s.split(sep)\<close> with an explicit one-character separator: every occurrence of the
  separator ends a piece, so the result always has at least one piece.
\<close>

fun split_on :: "char \<Rightarrow> string \<Rightarrow> string list" where
  "split_on sep [] = [[]]"
| "split_on sep (c # cs) =
     (if c = sep then [] # split_on sep cs
      else (case split_on sep cs of
              [] \<Rightarrow> [[c]]
            | w # ws \<Rightarrow> (c # w) # ws))"

text \<open>\<^verbatim>\<open>xs[0]\<close>: raises IndexError on an empty list.\<close>

definition getitem0 :: "'a list \<Rightarrow> py_error + 'a" where
  "getitem0 xs = (case xs of [] \<Rightarrow> Inl IndexError | x # _ \<Rightarrow> Inr x)"

text \<open>\<^verbatim>\<open>col.split(' ')[0]\<close>\<close>

definition split0 :: "string \<Rightarrow> py_error + string" where
  "split0 col = getitem0 (split_on (CHR '' '') col)"

text \<open>\<^verbatim>\<open>[col.split(' ')[0] for col in merchandise_data.columns]\<close>\<close>

fun split0_all :: "string list \<Rightarrow> py_error + string list" where
  "split0_all [] = Inr []"
| "split0_all (col # rest) =
     (case split0 col of
        Inl e \<Rightarrow> Inl e
      | Inr t \<Rightarrow> (case split0_all rest of
                   Inl e \<Rightarrow> Inl e
                 | Inr ts \<Rightarrow> Inr (t # ts)))"

text \<open>
  \<^verbatim>\<open>df.iloc[:-k]\<close> for \<open>k > 0\<close>: the slice stops \<open>k\<close> rows before the end, and at row 0
  when the table has fewer than \<open>k\<close> rows (the subtraction on \<open>nat\<close> stops at 0, as the
  slice does).
\<close>

definition iloc_upto_minus :: "nat \<Rightarrow> dataframe \<Rightarrow> dataframe" where
  "iloc_upto_minus k df =
     \<lparr> index = take (length (index df) - k) (index df),
       cols = map (\<lambda>(name, c). (name, take (length c - k) c)) (cols df) \<rparr>"

text \<open>
  \<^verbatim>\<open>df.drop(columns=labels, inplace=True)\<close>: KeyError when a label names no column,
  otherwise every column with one of the labels is removed.
\<close>

definition drop_columns :: "string list \<Rightarrow> dataframe \<Rightarrow> py_error + dataframe" where
  "drop_columns labels df =
     (case filter (\<lambda>l. l \<notin> set (columns df)) labels of
        l # _ \<Rightarrow> Inl (KeyError l)
      | [] \<Rightarrow> Inr (df\<lparr>cols := filter (\<lambda>(name, c). name \<notin> set labels) (cols df)\<rparr>))"

text \<open>\<^verbatim>\<open>df.columns = names\<close>: ValueError when the number of names is wrong.\<close>

definition set_columns :: "string list \<Rightarrow> dataframe \<Rightarrow> py_error + dataframe" where
  "set_columns names df =
     (if length names \<noteq> length (cols df) then Inl ValueError
      else Inr (df\<lparr>cols := zip names (map snd (cols df))\<rparr>))"

text \<open>
  The loader.  \<^verbatim>\<open>pd.read_csv\<close> is the environment: \<open>read_csv filename\<close> is the parsed
  table, or the exception raised for a missing or malformed file.
\<close>

definition read_export_import_data ::
  "(string \<Rightarrow> py_error + dataframe) \<Rightarrow> string \<Rightarrow> py_error + dataframe" where
  "read_export_import_data read_csv filename =
     (case read_csv filename of
        Inl e \<Rightarrow> Inl e
      | Inr raw \<Rightarrow>
          (let merchandise_data = iloc_upto_minus 10 raw
           in case drop_columns [''Country Code'', ''Series Code''] merchandise_data of
                Inl e \<Rightarrow> Inl e
              | Inr merchandise_data \<Rightarrow>
                  (case split0_all (columns merchandise_data) of
                     Inl e \<Rightarrow> Inl e
                   | Inr names \<Rightarrow> set_columns names merchandise_data)))"

subsection \<open>Specification-side notions for the loader\<close>

text \<open>The part of a header before its first space.\<close>

definition before_first_space :: "string \<Rightarrow> string" where
  "before_first_space h = takeWhile (\<lambda>c. c \<noteq> CHR '' '') h"

text \<open>
  The first whitespace-delimited token of a header, as \<^verbatim>\<open>h.split()[0]\<close> computes it:
  leading whitespace is skipped and the token ends at the next whitespace character.
  A character is a code point below 256; the whitespace among them is the space, the
  controls 0x09 to 0x0D and 0x1C to 0x1F, the next-line control 0x85 and the no-break
  space 0xA0.
\<close>

definition is_whitespace :: "char \<Rightarrow> bool" where
  "is_whitespace c =
     (c \<in> set [CHR '' '', CHR 0x09, CHR 0x0A, CHR 0x0B, CHR 0x0C, CHR 0x0D,
                CHR 0x1C, CHR 0x1D, CHR 0x1E, CHR 0x1F, CHR 0x85, CHR 0xA0])"

definition first_whitespace_token :: "string \<Rightarrow> string" where
  "first_whitespace_token h = takeWhile (\<lambda>c. \<not> is_whitespace c) (dropWhile is_whitespace h)"

text \<open>
  A header whose only whitespace is the space character and that starts with a
  non-whitespace character, such as \<^verbatim>\<open>2010\<close> or \<^verbatim>\<open>2010 [YR2010]\<close>.
\<close>

definition space_separated :: "string \<Rightarrow> bool" where
  "space_separated h =
     (h \<noteq> [] \<and> hd h \<noteq> CHR '' '' \<and> list_all (\<lambda>c. is_whitespace c \<longrightarrow> c = CHR '' '') h)"

subsection \<open>A sample export of the data bank\<close>

text \<open>
  Eleven rows for one country and one indicator, with the headers of a World Bank
  export; used to run the loader on a concrete table.
\<close>

definition sample_raw :: dataframe where
  "sample_raw =
     \<lparr> index = [0..<11],
       cols = [(''Country Name'', replicate 11 (Str ''Brazil'')),
               (''Country Code'', replicate 11 (Str ''BRA'')),
               (''Series Name'', replicate 11 (Str ''Merchandise exports (current US$)'')),
               (''Series Code'', replicate 11 (Str ''TX.VAL.MRCH.CD.WT'')),
               (''2010 [YR2010]'', replicate 11 (Num (Finite 2500000000))),
               (''2011 [YR2011]'', replicate 11 (Str ''..''))] \<rparr>"

definition sample_short :: dataframe where
  "sample_short =
     \<lparr> index = [0..<3],
       cols = [(''Country Name'', replicate 3 (Str ''Brazil'')),
               (''Country Code'', replicate 3 (Str ''BRA'')),
               (''Series Name'', replicate 3 (Str ''Merchandise exports (current US$)'')),
               (''Series Code'', replicate 3 (Str ''TX.VAL.MRCH.CD.WT'')),
               (''2010'', replicate 3 (Num (Finite 2500000000)))] \<rparr>"

text \<open>
  The same export with a tabulator in the header of the year column, and a reader that
  delivers a given table for every path.
\<close>

definition tab_header :: string where
  "tab_header = ''2010'' @ [CHR 0x09] @ ''x''"

definition sample_tab :: dataframe where
  "sample_tab =
     \<lparr> index = [0..<11],
       cols = [(''Country Name'', replicate 11 (Str ''Brazil'')),
               (''Country Code'', replicate 11 (Str ''BRA'')),
               (''Series Name'', replicate 11 (Str ''Merchandise exports (current US$)'')),
               (''Series Code'', replicate 11 (Str ''TX.VAL.MRCH.CD.WT'')),
               (tab_header, replicate 11 (Num (Finite 2500000000)))] \<rparr>"

definition deliver :: "dataframe \<Rightarrow> string \<Rightarrow> py_error + dataframe" where
  "deliver df path = Inr df"

section \<open>Binary64 arithmetic\<close>

text \<open>
  The numbers of the script are IEEE 754 binary64 values (\<^verbatim>\<open>float64\<close>).  A finite
  value is the rational it denotes, \<open>NegZero\<close> is \<^verbatim>\<open>-0.0\<close>.  An operation computes the
  exact rational result and rounds it to the nearest representable value, ties to the
  even significand.
\<close>

text \<open>\<^verbatim>\<open>int.bit_length\<close>: the number of binary digits of \<open>n\<close>.\<close>

fun bit_length :: "nat \<Rightarrow> nat" where
  "bit_length n = (if n = 0 then 0 else Suc (bit_length (n div 2)))"

declare bit_length.simps [simp del]

definition pow2 :: "int \<Rightarrow> rat" where
  "pow2 k = (if 0 \<le> k then 2 ^ nat k else 1 / 2 ^ nat (- k))"

definition round_half_even :: "rat \<Rightarrow> int" where
  "round_half_even x =
     (let f = \<lfloor>x\<rfloor>; d = x - of_int f
      in if d < 1 / 2 then f else if 1 / 2 < d then f + 1
         else if even f then f else f + 1)"

text \<open>For \<open>x > 0\<close>, the integer \<open>k\<close> with \<open>2 ^ k \<le> x < 2 ^ (k + 1)\<close>.\<close>

definition ilog2 :: "rat \<Rightarrow> int" where
  "ilog2 x = (if 1 \<le> x then int (bit_length (nat \<lfloor>x\<rfloor>)) - 1
              else - int (bit_length (nat (\<lceil>1 / x\<rceil> - 1))))"

text \<open>
  Rounding to binary64: 53 significant bits, the exponent of the last bit not below
  \<open>-1074\<close> (subnormal numbers), overflow to infinity from \<open>2 ^ 1024\<close> on (the rounded
  significand \<open>m\<close> then has more than \<open>1024 - e\<close> bits), and a signed zero on underflow.
\<close>

definition round64 :: "rat \<Rightarrow> float64" where
  "round64 x =
     (if x = 0 then Finite 0
      else let a = \<bar>x\<bar>;
               e = max (ilog2 a - 52) (- 1074);
               m = round_half_even (a / pow2 e)
           in if 1024 < e + int (bit_length (nat m)) then (if x < 0 then NInf else PInf)
              else if m = 0 then (if x < 0 then NegZero else Finite 0)
              else Finite (if x < 0 then - (of_int m * pow2 e) else of_int m * pow2 e))"

text \<open>\<^verbatim>\<open>x / c\<close> and \<^verbatim>\<open>x * c\<close> for a positive finite constant \<open>c\<close>.\<close>

fun truediv :: "float64 \<Rightarrow> rat \<Rightarrow> float64" where
  "truediv (Finite r) c = round64 (r / c)"
| "truediv x c = x"

fun fmul :: "float64 \<Rightarrow> rat \<Rightarrow> float64" where
  "fmul (Finite r) c = round64 (r * c)"
| "fmul x c = x"

text \<open>\<^verbatim>\<open>x >= 1\<close>\<close>

fun ge_one :: "float64 \<Rightarrow> bool" where
  "ge_one (Finite r) = (1 \<le> r)"
| "ge_one PInf = True"
| "ge_one x = False"

text \<open>\<^verbatim>\<open>x < 0\<close>\<close>

fun lt_zero :: "float64 \<Rightarrow> bool" where
  "lt_zero (Finite r) = (r < 0)"
| "lt_zero NInf = True"
| "lt_zero x = False"

text \<open>The decimal digits of a natural number.\<close>

fun decimal :: "nat \<Rightarrow> string" where
  "decimal n = (if n < 10 then [''0123456789'' ! n]
                else decimal (n div 10) @ [''0123456789'' ! (n mod 10)])"

declare decimal.simps [simp del]

text \<open>
  \<^verbatim>\<open>f'{x:.1f}'\<close>: the exact value of \<open>x\<close> rounded to one decimal, ties to the even
  digit.
\<close>

fun format_1f :: "float64 \<Rightarrow> string" where
  "format_1f (Finite r) =
     (let d = nat (round_half_even (\<bar>r\<bar> * 10))
      in (if r < 0 then ''-'' else []) @ decimal (d div 10) @ ''.'' @ decimal (d mod 10))"
| "format_1f NegZero = ''-0.0''"
| "format_1f PInf = ''inf''"
| "format_1f NInf = ''-inf''"
| "format_1f NaN = ''nan''"

section \<open>Selection and numeric coercion\<close>

text \<open>\<^verbatim>\<open>data[name]\<close>: KeyError when the table has no such column.\<close>

definition getitem_column :: "dataframe \<Rightarrow> string \<Rightarrow> py_error + cell list" where
  "getitem_column df name =
     (case map_of (cols df) name of
        None \<Rightarrow> Inl (KeyError name)
      | Some c \<Rightarrow> Inr c)"

text \<open>\<^verbatim>\<open>series == value\<close> and \<^verbatim>\<open>series.isin(values)\<close>, cell by cell.\<close>

definition eq_mask :: "cell list \<Rightarrow> string \<Rightarrow> bool list" where
  "eq_mask series v = map (\<lambda>c. c = Str v) series"

definition isin :: "cell list \<Rightarrow> string list \<Rightarrow> bool list" where
  "isin series vs = map (\<lambda>c. case c of Str s \<Rightarrow> s \<in> set vs | Num x \<Rightarrow> False) series"

text \<open>
  \<^verbatim>\<open>data.loc[(data['Series'] == indicator) & (data['Country'].isin(countries)),
  year].values.tolist()\<close>: the cells of column \<open>year\<close> at the positions where the mask
  is true.
\<close>

definition select_values ::
  "dataframe \<Rightarrow> string \<Rightarrow> string list \<Rightarrow> string \<Rightarrow> py_error + cell list" where
  "select_values data indicator countries year =
     (case getitem_column data ''Series'' of
        Inl e \<Rightarrow> Inl e
      | Inr series \<Rightarrow>
          (case getitem_column data ''Country'' of
             Inl e \<Rightarrow> Inl e
           | Inr country \<Rightarrow>
               (let mask = map2 (\<and>) (eq_mask series indicator) (isin country countries)
                in case getitem_column data year of
                     Inl e \<Rightarrow> Inl e
                   | Inr col \<Rightarrow> Inr (map snd (filter fst (zip mask col))))))"

text \<open>
  \<^verbatim>\<open>pd.to_numeric(values, errors=...)\<close>.  Which texts denote a number, and which number,
  is the parser \<open>parse_float\<close> of the library.  A text that is no number raises
  ValueError under \<^verbatim>\<open>errors='raise'\<close> and becomes NaN under \<^verbatim>\<open>errors='coerce'\<close>.
\<close>

datatype errors_mode = Raise | Coerce

definition to_numeric1 ::
  "(string \<Rightarrow> float64 option) \<Rightarrow> errors_mode \<Rightarrow> cell \<Rightarrow> py_error + float64" where
  "to_numeric1 parse_float errors c =
     (case c of
        Num x \<Rightarrow> Inr x
      | Str s \<Rightarrow>
          (case parse_float s of
             Some x \<Rightarrow> Inr x
           | None \<Rightarrow> (case errors of Raise \<Rightarrow> Inl ValueError | Coerce \<Rightarrow> Inr NaN)))"

fun to_numeric ::
  "(string \<Rightarrow> float64 option) \<Rightarrow> errors_mode \<Rightarrow> cell list \<Rightarrow> py_error + float64 list" where
  "to_numeric parse_float errors [] = Inr []"
| "to_numeric parse_float errors (c # cs) =
     (case to_numeric1 parse_float errors c of
        Inl e \<Rightarrow> Inl e
      | Inr x \<Rightarrow> (case to_numeric parse_float errors cs of
                   Inl e \<Rightarrow> Inl e
                 | Inr xs \<Rightarrow> Inr (x # xs)))"

subsection \<open>Specification-side notions for the selection\<close>


definition sample_table :: dataframe where
  "sample_table =
     \<lparr> index = [0..<4],
       cols = [(''Country'', [Str ''Canada'', Str ''Chile'', Str ''Brazil'', Str ''Brazil'']),
               (''Series'', [Str ''Merchandise exports (current US$)'',
                             Str ''Merchandise exports (current US$)'',
                             Str ''Merchandise exports (current US$)'',
                             Str ''Merchandise imports (current US$)'']),
               (''2010'', [Num (Finite 40), Num (Finite 7), Str ''N/A'', Num (Finite 9)])] \<rparr>"

section \<open>The renderers\<close>

text \<open>
  A renderer receives the table and the axes by reference and returns nothing.  The
  model threads both objects, and the global seaborn style, as the state; it returns the
  exception that ended the call, if any, with the state reached.  What matplotlib draws
  is recorded as the list of artists added to the axes, each with the arguments of the
  call.  The position of a bar, \<^verbatim>\<open>bar_positions[k] + i * bar_height\<close>, is kept as the pair
  of the country position \<open>k\<close> and the year index \<open>i\<close>, and the colour
  \<^verbatim>\<open>colormap(i / len(years))\<close> as \<open>i\<close> and the number of years.
\<close>

datatype colormap = Set3 | Prism | Viridis

datatype bar = Bar nat nat float64

datatype artist =
    Line2D "string list" "float64 list" string string
  | BarContainer "bar list" string nat nat
  | Text bar string
  | Pie "float64 list" "string list" "rat list" colormap
  | Title string
  | XLabel string
  | YLabel string
  | Legend
  | Grid
  | YTicks nat nat
  | YTickLabels "string list"
  | SpineInvisible string
  | CentreCircle
  | CentreText string
  | AxisEqual

record render_state =
  data :: dataframe
  ax :: "artist list"
  sns_style :: string

definition colors :: "string list" where
  "colors = [''red'', ''dodgerblue'', ''lawngreen'', ''k'']"

text \<open>
  \<^verbatim>\<open>ax.plot(countries, values, ...)\<close> raises ValueError when the two sequences differ in
  length.  The argument \<^verbatim>\<open>colors[i]\<close> is evaluated before the call.
\<close>

fun line_plot_years ::
  "(string \<Rightarrow> float64 option) \<Rightarrow> string list \<Rightarrow> string \<Rightarrow> (nat \<times> string) list
     \<Rightarrow> render_state \<Rightarrow> py_error option \<times> render_state" where
  "line_plot_years parse_float countries indicator [] s = (None, s)"
| "line_plot_years parse_float countries indicator ((i, year) # rest) s =
     (case select_values (data s) indicator countries year of
        Inl e \<Rightarrow> (Some e, s)
      | Inr cells \<Rightarrow>
          (case to_numeric parse_float Coerce cells of
             Inl e \<Rightarrow> (Some e, s)
           | Inr numbers \<Rightarrow>
               (let values = map (\<lambda>v. truediv v 10) numbers
                in if length colors \<le> i then (Some IndexError, s)
                   else if length countries \<noteq> length values then (Some ValueError, s)
                   else line_plot_years parse_float countries indicator rest
                          (s\<lparr>ax := ax s @ [Line2D countries values year (colors ! i)]\<rparr>))))"

definition line_plot_creation ::
  "(string \<Rightarrow> float64 option) \<Rightarrow> string list \<Rightarrow> string \<Rightarrow> string list
     \<Rightarrow> render_state \<Rightarrow> py_error option \<times> render_state" where
  "line_plot_creation parse_float countries indicator years s =
     (case line_plot_years parse_float countries indicator (enumerate 0 years) s of
        (Some e, s') \<Rightarrow> (Some e, s')
      | (None, s') \<Rightarrow>
          (None, s'\<lparr>ax := ax s' @ [Title (indicator @ '' (American Countries)''),
                                   XLabel ''Country'', YLabel ''Value (in 10^10)'',
                                   Legend, Grid],
                     sns_style := ''dark''\<rparr>))"

text \<open>
  \<^verbatim>\<open>f'{value:.1f}B' if value >= 1 else f'{value * 1000:.1f}M'\<close>
\<close>

definition formatted_value :: "float64 \<Rightarrow> string" where
  "formatted_value value =
     (if ge_one value then format_1f value @ ''B''
      else format_1f (fmul value 1000) @ ''M'')"

text \<open>
  \<^verbatim>\<open>ax.barh(bar_positions + i * bar_height, values_billions, ...)\<close> with \<open>n\<close> bar
  positions: the positions and the widths are broadcast against each other, so they
  must have the same length unless one of them has length one; otherwise ValueError.
\<close>

definition barh :: "nat \<Rightarrow> nat \<Rightarrow> float64 list \<Rightarrow> py_error + bar list" where
  "barh n i widths =
     (if n = length widths then Inr (map (\<lambda>(k, w). Bar k i w) (zip [0..<n] widths))
      else if length widths = 1 then Inr (map (\<lambda>k. Bar k i (hd widths)) [0..<n])
      else if n = 1 then Inr (map (\<lambda>w. Bar 0 i w) widths)
      else Inl ValueError)"

fun bar_plot_years ::
  "(string \<Rightarrow> float64 option) \<Rightarrow> string list \<Rightarrow> string \<Rightarrow> nat \<Rightarrow> (nat \<times> string) list
     \<Rightarrow> render_state \<Rightarrow> py_error option \<times> render_state" where
  "bar_plot_years parse_float countries indicator n_years [] s = (None, s)"
| "bar_plot_years parse_float countries indicator n_years ((i, year) # rest) s =
     (case select_values (data s) indicator countries year of
        Inl e \<Rightarrow> (Some e, s)
      | Inr cells \<Rightarrow>
          (case to_numeric parse_float Coerce cells of
             Inl e \<Rightarrow> (Some e, s)
           | Inr values \<Rightarrow>
               (let values_billions = map (\<lambda>val. truediv val 1000000000) values
                in case barh (length countries) i values_billions of
                     Inl e \<Rightarrow> (Some e, s)
                   | Inr bars \<Rightarrow>
                       bar_plot_years parse_float countries indicator n_years rest
                         (s\<lparr>ax := ax s @ [BarContainer bars year i n_years]
                                  @ map (\<lambda>(b, value). Text b (formatted_value value))
                                      (zip bars values_billions)\<rparr>))))"

definition horizontal_bar_plot_creation ::
  "(string \<Rightarrow> float64 option) \<Rightarrow> string list \<Rightarrow> string \<Rightarrow> string list
     \<Rightarrow> render_state \<Rightarrow> py_error option \<times> render_state" where
  "horizontal_bar_plot_creation parse_float countries indicator years s =
     (case bar_plot_years parse_float countries indicator (length years) (enumerate 0 years) s of
        (Some e, s') \<Rightarrow> (Some e, s')
      | (None, s') \<Rightarrow>
          (None, s'\<lparr>ax := ax s' @ [Title (indicator @ '' (Asian Countries)''),
                                   XLabel ''Value (in Billions)'', YLabel ''Country'',
                                   YTicks (length countries) (length years),
                                   YTickLabels countries, Legend, Grid,
                                   SpineInvisible ''top'', SpineInvisible ''right''],
                     sns_style := ''dark''\<rparr>))"

text \<open>
  \<^verbatim>\<open>ax.pie(values, labels=countries, explode=explode, ...)\<close> raises ValueError for a
  negative value and when the labels or the offsets differ in number from the values.
\<close>

definition pie ::
  "float64 list \<Rightarrow> string list \<Rightarrow> rat list \<Rightarrow> colormap \<Rightarrow> py_error + artist" where
  "pie values labels explode cmap =
     (if list_ex lt_zero values \<or> length labels \<noteq> length values
           \<or> length explode \<noteq> length values
      then Inl ValueError
      else Inr (Pie values labels explode cmap))"

text \<open>\<^verbatim>\<open>s.capitalize()\<close> on ASCII text.\<close>

definition upper_char :: "char \<Rightarrow> char" where
  "upper_char c =
     (if 97 \<le> (of_char c :: nat) \<and> (of_char c :: nat) \<le> 122
      then char_of ((of_char c :: nat) - 32) else c)"

definition lower_char :: "char \<Rightarrow> char" where
  "lower_char c =
     (if 65 \<le> (of_char c :: nat) \<and> (of_char c :: nat) \<le> 90
      then char_of ((of_char c :: nat) + 32) else c)"

definition capitalize :: "string \<Rightarrow> string" where
  "capitalize s = (case s of [] \<Rightarrow> [] | c # cs \<Rightarrow> upper_char c # map lower_char cs)"

definition create_merchandise_pie_chart ::
  "(string \<Rightarrow> float64 option) \<Rightarrow> string list \<Rightarrow> string \<Rightarrow> string \<Rightarrow> string
     \<Rightarrow> render_state \<Rightarrow> py_error option \<times> render_state" where
  "create_merchandise_pie_chart parse_float countries indicator year chart_type s =
     (case select_values (data s) indicator countries year of
        Inl e \<Rightarrow> (Some e, s)
      | Inr cells \<Rightarrow>
          (case to_numeric parse_float Coerce cells of
             Inl e \<Rightarrow> (Some e, s)
           | Inr values \<Rightarrow>
               (let explode = replicate (length countries) (1 / 10);
                    colormap = (if chart_type = ''exports'' then Set3 else Prism)
                in case pie values countries explode colormap of
                     Inl e \<Rightarrow> (Some e, s)
                   | Inr wedges \<Rightarrow>
                       (let chart_title =
                              (if chart_type = ''exports''
                               then ''Exports to economies in the Arab World''
                               else ''Imports from economies in the Arab World'')
                        in (None, s\<lparr>ax := ax s @ [wedges,
                                                   Title (chart_title @ '' in '' @ year),
                                                   CentreCircle,
                                                   CentreText (capitalize chart_type),
                                                   AxisEqual]\<rparr>)))))"

section \<open>The script\<close>

text \<open>
  The state of the process: the four axes of the 2 by 2 grid, the texts put on the
  figure, the seaborn style, the image files written and whether the window has been
  shown.  The call of \<^verbatim>\<open>plt.savefig\<close> at the end of the script is commented out, so the
  script has no step that writes a file.
\<close>

record world =
  axs :: "artist list list"
  fig_texts :: "string list"
  style :: string
  saved_files :: "string list"
  shown :: bool

text \<open>A renderer call on axes \<open>k\<close> with the table \<open>d\<close>; the table object is passed on.\<close>

definition on_axes ::
  "nat \<Rightarrow> (render_state \<Rightarrow> py_error option \<times> render_state) \<Rightarrow> dataframe \<times> world
     \<Rightarrow> py_error option \<times> dataframe \<times> world" where
  "on_axes k f dw =
     (case dw of (d, w) \<Rightarrow>
        (case f \<lparr>data = d, ax = axs w ! k, sns_style = style w\<rparr> of
           (r, s') \<Rightarrow> (r, data s', w\<lparr>axs := (axs w)[k := ax s'], style := sns_style s'\<rparr>)))"

definition filename :: string where
  "filename = ''MerchandiseData.csv''"

definition arab_countries :: "string list" where
  "arab_countries = [''Saudi Arabia'', ''Bahrain'', ''Iraq'', ''Qatar'', ''Libya'', ''Kuwait'']"

definition asian_countries :: "string list" where
  "asian_countries = [''China'', ''India'', ''Japan'', ''Malaysia'', ''Singapore'']"

definition american_countries :: "string list" where
  "american_countries = [''Colombia'', ''Brazil'', ''Canada'', ''Chile'', ''Argentina'', ''Mexico'']"

definition year_list :: "string list" where
  "year_list = [''2010'', ''2011'', ''2012'', ''2013'']"

definition exports_share :: string where
  "exports_share = ''Merchandise exports to economies in the Arab World (% of total merchandise exports)''"

definition imports_share :: string where
  "imports_share = ''Merchandise imports from economies in the Arab World (% of total merchandise imports)''"

definition script ::
  "(string \<Rightarrow> py_error + dataframe) \<Rightarrow> (string \<Rightarrow> float64 option) \<Rightarrow> world
     \<Rightarrow> py_error option \<times> world" where
  "script read_csv parse_float w0 =
     (let w = w0\<lparr>axs := replicate 4 [], style := ''whitegrid''\<rparr>
      in case read_export_import_data read_csv filename of
           Inl e \<Rightarrow> (Some e, w)
         | Inr merchandise_data \<Rightarrow>
             (case on_axes 0 (line_plot_creation parse_float american_countries
                                ''Merchandise exports (current US$)'' year_list)
                     (merchandise_data, w) of
                (Some e, d, w) \<Rightarrow> (Some e, w)
              | (None, dw) \<Rightarrow>
             (case on_axes 1 (horizontal_bar_plot_creation parse_float asian_countries
                                ''Merchandise imports (current US$)'' year_list) dw of
                (Some e, d, w) \<Rightarrow> (Some e, w)
              | (None, dw) \<Rightarrow>
             (case on_axes 2 (create_merchandise_pie_chart parse_float arab_countries
                                exports_share ''2015'' ''exports'') dw of
                (Some e, d, w) \<Rightarrow> (Some e, w)
              | (None, dw) \<Rightarrow>
             (case on_axes 3 (create_merchandise_pie_chart parse_float arab_countries
                                imports_share ''2015'' ''imports'') dw of
                (Some e, d, w) \<Rightarrow> (Some e, w)
              | (None, d, w) \<Rightarrow>
                  (None, w\<lparr>fig_texts := fig_texts w
                              @ [''Growth of Merchandise Trade in the Regions 2010-2015'',
                                 ''details'', ''description_text''],
                            shown := True\<rparr>))))))"

subsection \<open>Specification-side notions for the renderers\<close>









subsection \<open>Sample inputs for the renderers\<close>




section \<open>Properties of the loader\<close>

lemma split_on_shape:
  "\<exists>ws. split_on sep s = takeWhile (\<lambda>c. c \<noteq> sep) s # ws"
proof (induction s)
  case Nil
  show ?case by simp
next
  case (Cons c cs)
  then obtain ws where "split_on sep cs = takeWhile (\<lambda>c. c \<noteq> sep) cs # ws"
    by blast
  then show ?case by simp
qed

lemma split0_eq: "split0 h = Inr (before_first_space h)"
proof -
  obtain ws where "split_on (CHR '' '') h = takeWhile (\<lambda>c. c \<noteq> CHR '' '') h # ws"
    using split_on_shape by blast
  then show ?thesis
    by (simp add: split0_def getitem0_def before_first_space_def)
qed

lemma split0_all_eq: "split0_all hs = Inr (map before_first_space hs)"
  by (induction hs) (simp_all add: split0_eq)

lemma before_first_space_idem:
  "before_first_space (before_first_space h) = before_first_space h"
  unfolding before_first_space_def
  by (rule takeWhile_idem)

lemma before_first_space_id:
  "CHR '' '' \<notin> set h \<Longrightarrow> before_first_space h = h"
  unfolding before_first_space_def
  by (rule takeWhile_eq_all_conv [THEN iffD2]) auto

lemma space_separated_token:
  assumes "space_separated h"
  shows "before_first_space h = first_whitespace_token h"
proof -
  from assms obtain c cs where h: "h = c # cs" and c: "c \<noteq> CHR '' ''"
    and ws: "\<forall>x\<in>set h. is_whitespace x \<longrightarrow> x = CHR '' ''"
    by (cases h) (auto simp: space_separated_def list_all_iff)
  from h c ws have "\<not> is_whitespace c" by auto
  with h have d: "dropWhile is_whitespace h = h" by simp
  have sp: "is_whitespace (CHR '' '')" by (simp add: is_whitespace_def)
  have "takeWhile (\<lambda>x. x \<noteq> CHR '' '') h = takeWhile (\<lambda>x. \<not> is_whitespace x) h"
    by (rule takeWhile_cong) (use ws sp in auto)
  with d show ?thesis
    by (simp add: before_first_space_def first_whitespace_token_def)
qed

lemma length_iloc_index: "nrows (iloc_upto_minus k df) = nrows df - k"
  by (simp add: iloc_upto_minus_def nrows_def)

lemma columns_iloc: "columns (iloc_upto_minus k df) = columns df"
  by (simp add: iloc_upto_minus_def columns_def comp_def case_prod_unfold)

lemma wf_iloc: "wf_dataframe df \<Longrightarrow> wf_dataframe (iloc_upto_minus k df)"
  by (auto simp: wf_dataframe_def iloc_upto_minus_def list_all_iff)

lemma drop_columns_ok:
  assumes "set labels \<subseteq> set (columns df)"
  shows "drop_columns labels df =
           Inr (df\<lparr>cols := filter (\<lambda>(name, c). name \<notin> set labels) (cols df)\<rparr>)"
proof -
  from assms have "filter (\<lambda>l. l \<notin> set (columns df)) labels = []"
    by (auto simp: filter_empty_conv)
  then show ?thesis by (simp add: drop_columns_def)
qed

lemma zip_rename:
  "zip (map f (map fst xs)) (map snd xs) = map (\<lambda>(name, c). (f name, c)) xs"
  by (induction xs) auto

text \<open>
  The loader succeeds on every table that \<^verbatim>\<open>read_csv\<close> delivers with the two code
  columns, and its result is described column by column.
\<close>

lemma loader_result:
  assumes rd: "read_csv path = Inr raw"
    and cc: "''Country Code'' \<in> set (columns raw)"
    and sc: "''Series Code'' \<in> set (columns raw)"
  shows "read_export_import_data read_csv path =
           Inr \<lparr> index = take (length (index raw) - 10) (index raw),
                 cols = map (\<lambda>(name, c). (before_first_space name, take (length c - 10) c))
                          (filter (\<lambda>(name, c). name \<notin> {''Country Code'', ''Series Code''})
                             (cols raw)) \<rparr>"
proof -
  let ?md = "iloc_upto_minus 10 raw"
  let ?keep = "filter (\<lambda>(name, c). name \<notin> set [''Country Code'', ''Series Code'']) (cols ?md)"
  have sub: "set [''Country Code'', ''Series Code''] \<subseteq> set (columns ?md)"
    using cc sc by (simp add: columns_iloc)
  have dr: "drop_columns [''Country Code'', ''Series Code''] ?md = Inr (?md\<lparr>cols := ?keep\<rparr>)"
    by (rule drop_columns_ok [OF sub])
  have nm: "split0_all (columns (?md\<lparr>cols := ?keep\<rparr>)) = Inr (map before_first_space (map fst ?keep))"
    by (simp add: split0_all_eq columns_def)
  have st: "set_columns (map before_first_space (map fst ?keep)) (?md\<lparr>cols := ?keep\<rparr>)
              = Inr (?md\<lparr>cols := zip (map before_first_space (map fst ?keep)) (map snd ?keep)\<rparr>)"
    by (simp add: set_columns_def)
  have zp: "zip (map before_first_space (map fst ?keep)) (map snd ?keep)
              = map (\<lambda>(name, c). (before_first_space name, c)) ?keep"
    by (rule zip_rename)
  have kp: "?keep = map (\<lambda>(name, c). (name, take (length c - 10) c))
                      (filter (\<lambda>(name, c). name \<notin> {''Country Code'', ''Series Code''}) (cols raw))"
    by (simp add: iloc_upto_minus_def filter_map comp_def case_prod_unfold)
  have "read_export_import_data read_csv path
          = Inr (?md\<lparr>cols := map (\<lambda>(name, c). (before_first_space name, c)) ?keep\<rparr>)"
    unfolding read_export_import_data_def Let_def
    by (simp only: rd dr nm st zp sum.case)
  also have "\<dots> = Inr \<lparr> index = take (length (index raw) - 10) (index raw),
                 cols = map (\<lambda>(name, c). (before_first_space name, take (length c - 10) c))
                          (filter (\<lambda>(name, c). name \<notin> {''Country Code'', ''Series Code''})
                             (cols raw)) \<rparr>"
    by (simp only: kp) (simp add: iloc_upto_minus_def comp_def case_prod_unfold)
  finally show ?thesis .
qed


text \<open>
  Claim C10.  The header renaming of the loader is idempotent: for every header \<open>h\<close>,
  \<^verbatim>\<open>h.split(' ')[0]\<close> never raises, applying it to its own result gives that result
  again, and a header without a space is left as it is.
\<close>

theorem header_truncation_idempotent:
  "\<exists>t. split0 h = Inr t \<and> split0 t = Inr t \<and> (CHR '' '' \<notin> set h \<longrightarrow> t = h)"
proof -
  have "split0 h = Inr (before_first_space h)"
    by (rule split0_eq)
  moreover have "split0 (before_first_space h) = Inr (before_first_space h)"
    by (simp add: split0_eq before_first_space_idem)
  moreover have "CHR '' '' \<notin> set h \<longrightarrow> before_first_space h = h"
    by (simp add: before_first_space_id)
  ultimately show ?thesis by blast
qed

theorem header_truncation_idempotent_witness:
  "CHR '' '' \<notin> set ''2010'' \<and> split0 ''2010'' = Inr ''2010''
     \<and> split0 ''2010 [YR2010]'' = Inr ''2010''"
proof -
  have n: "CHR '' '' \<notin> set ''2010''" by simp
  from header_truncation_idempotent [of "''2010''"] n
  have a: "split0 ''2010'' = Inr ''2010''" by auto
  have b: "split0 ''2010 [YR2010]'' = Inr ''2010''"
    by (simp add: split0_def getitem0_def)
  from n a b show ?thesis by blast
qed

text \<open>
  Claim C9.  On every well-formed table that has the two code columns the loader returns
  a table and does not raise, whatever the number of rows: the result has the row count
  less ten, cut off at zero.  In particular a table of ten or fewer rows yields an empty
  table: no index entry and no cell in any column.
\<close>

theorem loader_short_table_empty:
  assumes "read_csv path = Inr raw"
    and "''Country Code'' \<in> set (columns raw)"
    and "''Series Code'' \<in> set (columns raw)"
    and "wf_dataframe raw"
  shows "\<exists>df. read_export_import_data read_csv path = Inr df
            \<and> nrows df = nrows raw - 10
            \<and> (nrows raw \<le> 10 \<longrightarrow> index df = [] \<and> list_all (\<lambda>c. snd c = []) (cols df))"
proof -
  let ?df = "\<lparr> index = take (length (index raw) - 10) (index raw),
                 cols = map (\<lambda>(name, c). (before_first_space name, take (length c - 10) c))
                          (filter (\<lambda>(name, c). name \<notin> {''Country Code'', ''Series Code''})
                             (cols raw)) \<rparr>"
  have r: "read_export_import_data read_csv path = Inr ?df"
    using assms(1-3) by (rule loader_result)
  have n: "nrows ?df = nrows raw - 10"
    by (simp add: nrows_def)
  have e: "nrows raw \<le> 10 \<longrightarrow> index ?df = [] \<and> list_all (\<lambda>c. snd c = []) (cols ?df)"
    using assms(4) by (auto simp: nrows_def wf_dataframe_def list_all_iff)
  from r n e show ?thesis by blast
qed

theorem loader_short_table_empty_witness:
  "\<exists>df. read_export_import_data (\<lambda>f. Inr sample_short) ''MerchandiseData.csv'' = Inr df
       \<and> nrows sample_short = 3 \<and> nrows df = 0 \<and> index df = []
       \<and> list_all (\<lambda>c. snd c = []) (cols df)"
proof -
  have h2: "''Country Code'' \<in> set (columns sample_short)"
    by (simp add: sample_short_def columns_def)
  have h3: "''Series Code'' \<in> set (columns sample_short)"
    by (simp add: sample_short_def columns_def)
  have h4: "wf_dataframe sample_short"
    by (simp add: sample_short_def wf_dataframe_def)
  have h5: "nrows sample_short = 3"
    by (simp add: sample_short_def nrows_def)
  from loader_short_table_empty [where read_csv = "\<lambda>f. Inr sample_short"
      and path = "''MerchandiseData.csv''" and raw = sample_short, OF refl h2 h3 h4] h5
  show ?thesis by auto
qed

text \<open>
  Claim C2 says that every remaining header is truncated to its first
  whitespace-delimited token.  The loader splits at the space character only: on a
  table of eleven rows whose year column is headed \<^verbatim>\<open>2010<TAB>x\<close> it returns one row and
  the columns \<^verbatim>\<open>Country\<close>, \<^verbatim>\<open>Series\<close> and \<^verbatim>\<open>2010<TAB>x\<close>, while the first
  whitespace-delimited token of that header is \<^verbatim>\<open>2010\<close>.
\<close>

theorem loader_shape_counterexample:
  "read_export_import_data (deliver sample_tab) ''MerchandiseData.csv'' =
     Inr \<lparr> index = [0],
           cols = [(''Country'', [Str ''Brazil'']),
                   (''Series'', [Str ''Merchandise exports (current US$)'']),
                   (tab_header, [Num (Finite 2500000000)])] \<rparr>
   \<and> first_whitespace_token tab_header = ''2010''
   \<and> tab_header \<noteq> ''2010''"
proof -
  have cc: "''Country Code'' \<in> set (columns sample_tab)"
    and sc: "''Series Code'' \<in> set (columns sample_tab)"
    by (simp_all add: sample_tab_def columns_def)
  have rd: "deliver sample_tab ''MerchandiseData.csv'' = Inr sample_tab"
    by (simp add: deliver_def)
  have bt: "before_first_space tab_header = tab_header"
    by (simp add: before_first_space_def tab_header_def)
  have ne: "tab_header \<noteq> ''Country Code''" "tab_header \<noteq> ''Series Code''"
    by (simp_all add: tab_header_def)
  have bn: "before_first_space ''Country Name'' = ''Country''"
    "before_first_space ''Series Name'' = ''Series''"
    by (simp_all add: before_first_space_def)
  have a: "read_export_import_data (deliver sample_tab) ''MerchandiseData.csv'' =
     Inr \<lparr> index = [0],
           cols = [(''Country'', [Str ''Brazil'']),
                   (''Series'', [Str ''Merchandise exports (current US$)'']),
                   (tab_header, [Num (Finite 2500000000)])] \<rparr>"
    unfolding loader_result [where read_csv = "deliver sample_tab"
        and path = "''MerchandiseData.csv''" and raw = sample_tab, OF rd cc sc]
    by (simp add: sample_tab_def bt ne bn)
  have b: "first_whitespace_token tab_header = ''2010''"
    by (simp add: first_whitespace_token_def tab_header_def is_whitespace_def)
  have c: "tab_header \<noteq> ''2010''"
    by (simp add: tab_header_def)
  from a b c show ?thesis by (intro conjI)
qed

text \<open>
  Claim C2, amended.  For a table with the header row
  \<^verbatim>\<open>Country Name,Country Code,Series Name,Series Code,<years...>\<close> and \<open>N + 10\<close> data rows
  the loader returns a table of exactly \<open>N\<close> rows, without the two code columns (the
  remaining columns keep their first \<open>N\<close> cells), and with every remaining header cut at
  its first space character: the headers are \<^verbatim>\<open>Country\<close>, \<^verbatim>\<open>Series\<close> and the year
  headers cut at their first space.  For year headers that start with a non-whitespace
  character and whose only whitespace is the space character, this is the first
  whitespace-delimited token.
\<close>

theorem loader_shape:
  assumes rd: "read_csv path = Inr raw"
    and hdr: "columns raw =
               [''Country Name'', ''Country Code'', ''Series Name'', ''Series Code''] @ years"
    and dist: "distinct (columns raw)"
    and wf: "wf_dataframe raw"
    and n: "nrows raw = N + 10"
  shows "\<exists>df. read_export_import_data read_csv path = Inr df
            \<and> nrows df = N
            \<and> wf_dataframe df
            \<and> columns df = [''Country'', ''Series''] @ map before_first_space years
            \<and> map snd (cols df) =
                  map (\<lambda>c. take N (snd c))
                    (filter (\<lambda>c. fst c \<notin> {''Country Code'', ''Series Code''}) (cols raw))
            \<and> (list_all space_separated years \<longrightarrow>
                  columns df = [''Country'', ''Series''] @ map first_whitespace_token years)"
proof -
  let ?kept = "filter (\<lambda>(name, c). name \<notin> {''Country Code'', ''Series Code''}) (cols raw)"
  let ?df = "\<lparr> index = take (length (index raw) - 10) (index raw),
                 cols = map (\<lambda>(name, c). (before_first_space name, take (length c - 10) c)) ?kept \<rparr>"
  have cc: "''Country Code'' \<in> set (columns raw)" and sc: "''Series Code'' \<in> set (columns raw)"
    by (simp_all add: hdr)
  have r: "read_export_import_data read_csv path = Inr ?df"
    using rd cc sc by (rule loader_result)
  have len: "\<forall>c\<in>set (cols raw). length (snd c) = N + 10"
    using wf n by (simp add: wf_dataframe_def nrows_def list_all_iff)
  have nr: "nrows ?df = N"
    using n by (simp add: nrows_def)
  have w: "wf_dataframe ?df"
    using len n by (auto simp: wf_dataframe_def nrows_def list_all_iff)
  have yrs: "''Country Code'' \<notin> set years" "''Series Code'' \<notin> set years"
    using dist by (auto simp: hdr)
  have "map fst ?kept = filter (\<lambda>name. name \<notin> {''Country Code'', ''Series Code''}) (columns raw)"
    by (simp add: columns_def filter_map comp_def case_prod_unfold)
  also have "\<dots> = [''Country Name'', ''Series Name''] @ filter (\<lambda>name. name \<notin> {''Country Code'', ''Series Code''}) years"
    by (simp add: hdr)
  also have "filter (\<lambda>name. name \<notin> {''Country Code'', ''Series Code''}) years = years"
    using yrs by (auto simp: filter_id_conv)
  finally have kept: "map fst ?kept = [''Country Name'', ''Series Name''] @ years" .
  have "columns ?df = map before_first_space (map fst ?kept)"
    by (simp add: columns_def comp_def case_prod_unfold)
  also have "\<dots> = [''Country'', ''Series''] @ map before_first_space years"
    by (simp only: kept) (simp add: before_first_space_def)
  finally have cl: "columns ?df = [''Country'', ''Series''] @ map before_first_space years" .
  have dt: "map snd (cols ?df) =
              map (\<lambda>c. take N (snd c))
                (filter (\<lambda>c. fst c \<notin> {''Country Code'', ''Series Code''}) (cols raw))"
    using len by (auto simp: case_prod_unfold)
  have ws: "list_all space_separated years \<longrightarrow>
              columns ?df = [''Country'', ''Series''] @ map first_whitespace_token years"
  proof
    assume a: "list_all space_separated years"
    have "map before_first_space years = map first_whitespace_token years"
      by (rule map_cong [OF refl]) (use a in \<open>simp add: list_all_iff space_separated_token\<close>)
    with cl show "columns ?df = [''Country'', ''Series''] @ map first_whitespace_token years"
      by (simp only:)
  qed
  from r nr w cl dt ws show ?thesis by blast
qed

theorem loader_shape_witness:
  "\<exists>df. read_export_import_data (\<lambda>f. Inr sample_raw) ''MerchandiseData.csv'' = Inr df
       \<and> nrows df = 1
       \<and> columns df = [''Country'', ''Series'', ''2010'', ''2011'']
       \<and> map snd (cols df) = [[Str ''Brazil''], [Str ''Merchandise exports (current US$)''],
                                [Num (Finite 2500000000)], [Str ''..'']]"
proof -
  have h2: "columns sample_raw =
              [''Country Name'', ''Country Code'', ''Series Name'', ''Series Code'']
                @ [''2010 [YR2010]'', ''2011 [YR2011]'']"
    by (simp add: sample_raw_def columns_def)
  have h3: "distinct (columns sample_raw)"
    by (simp add: sample_raw_def columns_def)
  have h4: "wf_dataframe sample_raw"
    by (simp add: sample_raw_def wf_dataframe_def)
  have h5: "nrows sample_raw = 1 + 10"
    by (simp add: sample_raw_def nrows_def)
  have h6: "list_all space_separated [''2010 [YR2010]'', ''2011 [YR2011]'']"
    by (simp add: space_separated_def is_whitespace_def)
  from loader_shape [where read_csv = "\<lambda>f. Inr sample_raw"
      and path = "''MerchandiseData.csv''" and raw = sample_raw
      and years = "[''2010 [YR2010]'', ''2011 [YR2011]'']" and N = 1, OF refl h2 h3 h4 h5]
  obtain df where df:
    "read_export_import_data (\<lambda>f. Inr sample_raw) ''MerchandiseData.csv'' = Inr df
       \<and> nrows df = 1
       \<and> wf_dataframe df
       \<and> columns df = [''Country'', ''Series'']
             @ map before_first_space [''2010 [YR2010]'', ''2011 [YR2011]'']
       \<and> map snd (cols df) =
             map (\<lambda>c. take 1 (snd c))
               (filter (\<lambda>c. fst c \<notin> {''Country Code'', ''Series Code''}) (cols sample_raw))
       \<and> (list_all space_separated [''2010 [YR2010]'', ''2011 [YR2011]''] \<longrightarrow>
             columns df = [''Country'', ''Series'']
               @ map first_whitespace_token [''2010 [YR2010]'', ''2011 [YR2011]''])" ..
  note d = df [THEN conjunct1]
  note n = df [THEN conjunct2, THEN conjunct1]
  note s = df [THEN conjunct2, THEN conjunct2, THEN conjunct2, THEN conjunct2, THEN conjunct1]
  note c = df [THEN conjunct2, THEN conjunct2, THEN conjunct2, THEN conjunct2, THEN conjunct2,
               THEN mp, OF h6]
  have c': "columns df = [''Country'', ''Series'', ''2010'', ''2011'']"
    using c by (simp add: first_whitespace_token_def is_whitespace_def)
  have s': "map snd (cols df) = [[Str ''Brazil''], [Str ''Merchandise exports (current US$)''],
                                [Num (Finite 2500000000)], [Str ''..'']]"
    using s by (simp add: sample_raw_def)
  from d n c' s' have res:
    "read_export_import_data (\<lambda>f. Inr sample_raw) ''MerchandiseData.csv'' = Inr df
       \<and> nrows df = 1
       \<and> columns df = [''Country'', ''Series'', ''2010'', ''2011'']
       \<and> map snd (cols df) = [[Str ''Brazil''], [Str ''Merchandise exports (current US$)''],
                                [Num (Finite 2500000000)], [Str ''..'']]"
    by (intro conjI)
  show ?thesis
    by (rule exI [where x = df]) (rule res)
qed


section \<open>Properties of the selection and of the numeric coercion\<close>













section \<open>Properties of the renderers and of the script\<close>

lemma line_plot_years_data:
  "data (snd (line_plot_years parse_float countries indicator ys s)) = data s"
  by (induction parse_float countries indicator ys s rule: line_plot_years.induct)
     (simp_all add: Let_def split: sum.splits)

lemma bar_plot_years_data:
  "data (snd (bar_plot_years parse_float countries indicator n ys s)) = data s"
  by (induction parse_float countries indicator n ys s rule: bar_plot_years.induct)
     (simp_all add: Let_def split: sum.splits)

lemma line_plot_creation_data:
  "data (snd (line_plot_creation parse_float countries indicator years s)) = data s"
proof -
  obtain r s' where l: "line_plot_years parse_float countries indicator (enumerate 0 years) s = (r, s')"
    by (cases "line_plot_years parse_float countries indicator (enumerate 0 years) s")
  from line_plot_years_data [of parse_float countries indicator "enumerate 0 years" s] l
  have "data s' = data s" by simp
  with l show ?thesis
    by (cases r) (simp_all add: line_plot_creation_def)
qed

lemma horizontal_bar_plot_creation_data:
  "data (snd (horizontal_bar_plot_creation parse_float countries indicator years s)) = data s"
proof -
  obtain r s' where l:
    "bar_plot_years parse_float countries indicator (length years) (enumerate 0 years) s = (r, s')"
    by (cases "bar_plot_years parse_float countries indicator (length years) (enumerate 0 years) s")
  from bar_plot_years_data [of parse_float countries indicator "length years" "enumerate 0 years" s] l
  have "data s' = data s" by simp
  with l show ?thesis
    by (cases r) (simp_all add: horizontal_bar_plot_creation_def)
qed

lemma create_merchandise_pie_chart_data:
  "data (snd (create_merchandise_pie_chart parse_float countries indicator year chart_type s)) = data s"
  by (simp add: create_merchandise_pie_chart_def Let_def split: sum.splits)

text \<open>
  Claim C8.  No renderer modifies the table passed to it: after a call of the line
  renderer, of the bar renderer or of the pie renderer, whether it returns or raises,
  the table is the table that was passed in.
\<close>

theorem renderers_leave_table_unchanged:
  "data (snd (line_plot_creation parse_float countries indicator years s)) = data s
   \<and> data (snd (horizontal_bar_plot_creation parse_float countries indicator years s)) = data s
   \<and> data (snd (create_merchandise_pie_chart parse_float countries indicator year chart_type s))
       = data s"
  by (intro conjI line_plot_creation_data horizontal_bar_plot_creation_data
        create_merchandise_pie_chart_data)

theorem renderers_leave_table_unchanged_witness:
  "data (snd (line_plot_creation (\<lambda>t. None) [''Canada'', ''Chile'']
           ''Merchandise exports (current US$)'' [''2010'']
           \<lparr>data = sample_table, ax = [], sns_style = ''whitegrid''\<rparr>)) = sample_table
   \<and> data (snd (horizontal_bar_plot_creation (\<lambda>t. None) [''Canada'', ''Chile'']
           ''Merchandise exports (current US$)'' [''2010'']
           \<lparr>data = sample_table, ax = [], sns_style = ''whitegrid''\<rparr>)) = sample_table
   \<and> data (snd (create_merchandise_pie_chart (\<lambda>t. None) [''Canada'', ''Chile'']
           ''Merchandise exports (current US$)'' ''2010'' ''exports''
           \<lparr>data = sample_table, ax = [], sns_style = ''whitegrid''\<rparr>)) = sample_table"
  using renderers_leave_table_unchanged [where parse_float = "\<lambda>t. None"
      and countries = "[''Canada'', ''Chile'']"
      and indicator = "''Merchandise exports (current US$)''" and years = "[''2010'']"
      and year = "''2010''" and chart_type = "''exports''"
      and s = "\<lparr>data = sample_table, ax = [], sns_style = ''whitegrid''\<rparr>"]
  by simp

text \<open>
  Claim C6.  When the pie renderer returns, the artists it has added to the axes are the
  pie, the title, the white centre circle, the centre text and the equal-aspect setting;
  the colour map of the pie and the title depend on \<open>chart_type\<close> alone (and the title
  ends with the year): Set3 and \<^verbatim>\<open>Exports to economies in the Arab World in <year>\<close> when
  \<open>chart_type\<close> is \<^verbatim>\<open>exports\<close>, prism and
  \<^verbatim>\<open>Imports from economies in the Arab World in <year>\<close> for every other value.
\<close>

theorem pie_palette_and_title:
  assumes run: "create_merchandise_pie_chart parse_float countries indicator year chart_type s
                  = (None, s')"
  shows "\<exists>values.
           (chart_type = ''exports'' \<longrightarrow>
              ax s' = ax s @ [Pie values countries (replicate (length countries) (1 / 10)) Set3,
                              Title (''Exports to economies in the Arab World'' @ '' in '' @ year),
                              CentreCircle, CentreText (capitalize chart_type), AxisEqual])
         \<and> (chart_type \<noteq> ''exports'' \<longrightarrow>
              ax s' = ax s @ [Pie values countries (replicate (length countries) (1 / 10)) Prism,
                              Title (''Imports from economies in the Arab World'' @ '' in '' @ year),
                              CentreCircle, CentreText (capitalize chart_type), AxisEqual])"
proof (cases "chart_type = ''exports''")
  case True
  with run obtain vals where
    "s' = s\<lparr>ax := ax s @ [Pie vals countries (replicate (length countries) (1 / 10)) Set3,
              Title (''Exports to economies in the Arab World'' @ '' in '' @ year),
              CentreCircle, CentreText (capitalize chart_type), AxisEqual]\<rparr>"
    by (auto simp: create_merchandise_pie_chart_def Let_def pie_def split: sum.splits if_splits)
  with True show ?thesis by auto
next
  case False
  with run obtain vals where
    "s' = s\<lparr>ax := ax s @ [Pie vals countries (replicate (length countries) (1 / 10)) Prism,
              Title (''Imports from economies in the Arab World'' @ '' in '' @ year),
              CentreCircle, CentreText (capitalize chart_type), AxisEqual]\<rparr>"
    by (auto simp: create_merchandise_pie_chart_def Let_def pie_def split: sum.splits if_splits)
  with False show ?thesis by auto
qed


theorem pie_palette_and_title_witness:
  "\<exists>s' values.
      create_merchandise_pie_chart (\<lambda>t. None) [''Canada'', ''Chile'']
        ''Merchandise exports (current US$)'' ''2010'' ''exports''
        \<lparr>data = sample_table, ax = [], sns_style = ''whitegrid''\<rparr> = (None, s')
    \<and> ax s' = [Pie values [''Canada'', ''Chile''] [1 / 10, 1 / 10] Set3,
                 Title ''Exports to economies in the Arab World in 2010'',
                 CentreCircle, CentreText (capitalize ''exports''), AxisEqual]"
proof -
  let ?s = "\<lparr>data = sample_table, ax = [], sns_style = ''whitegrid''\<rparr>"
  let ?r = "create_merchandise_pie_chart (\<lambda>t. None) [''Canada'', ''Chile'']
              ''Merchandise exports (current US$)'' ''2010'' ''exports'' ?s"
  have sel: "select_values sample_table ''Merchandise exports (current US$)''
               [''Canada'', ''Chile''] ''2010'' = Inr [Num (Finite 40), Num (Finite 7)]"
    by (simp add: select_values_def getitem_column_def sample_table_def eq_mask_def isin_def)
  have "fst ?r = None"
    by (simp add: create_merchandise_pie_chart_def sel to_numeric1_def Let_def pie_def)
  then obtain s' where run: "?r = (None, s')"
    by (cases ?r) simp
  from pie_palette_and_title [where parse_float = "\<lambda>t. None"
      and countries = "[''Canada'', ''Chile'']"
      and indicator = "''Merchandise exports (current US$)''" and year = "''2010''"
      and chart_type = "''exports''" and s = ?s and s' = s', OF run]
  obtain vals where
    "ax s' = [Pie vals [''Canada'', ''Chile''] [1 / 10, 1 / 10] Set3,
              Title ''Exports to economies in the Arab World in 2010'',
              CentreCircle, CentreText (capitalize ''exports''), AxisEqual]"
    by (auto simp: numeral_2_eq_2)
  with run have
    "?r = (None, s')
     \<and> ax s' = [Pie vals [''Canada'', ''Chile''] [1 / 10, 1 / 10] Set3,
                  Title ''Exports to economies in the Arab World in 2010'',
                  CentreCircle, CentreText (capitalize ''exports''), AxisEqual]"
    by (intro conjI)
  then show ?thesis
    by (intro exI [where x = s'] exI [where x = vals])
qed

lemma on_axes_frame:
  "on_axes k f (d, w) = (r, d', w') \<Longrightarrow>
     saved_files w' = saved_files w \<and> shown w' = shown w \<and> fig_texts w' = fig_texts w"
  by (auto simp: on_axes_def split: prod.splits)

lemma script_writes_no_file:
  "saved_files (snd (script read_csv parse_float w)) = saved_files w"
proof (cases "read_export_import_data read_csv filename")
  case (Inl e)
  then show ?thesis by (simp add: script_def Let_def)
next
  case (Inr df)
  let ?w0 = "w\<lparr>axs := replicate 4 [], style := ''whitegrid''\<rparr>"
  obtain r1 d1 w1 where a1: "on_axes 0 (line_plot_creation parse_float american_countries
        ''Merchandise exports (current US$)'' year_list) (df, ?w0) = (r1, d1, w1)"
    by (metis prod_cases3)
  obtain r2 d2 w2 where a2: "on_axes 1 (horizontal_bar_plot_creation parse_float asian_countries
        ''Merchandise imports (current US$)'' year_list) (d1, w1) = (r2, d2, w2)"
    by (metis prod_cases3)
  obtain r3 d3 w3 where a3: "on_axes 2 (create_merchandise_pie_chart parse_float arab_countries
        exports_share ''2015'' ''exports'') (d2, w2) = (r3, d3, w3)"
    by (metis prod_cases3)
  obtain r4 d4 w4 where a4: "on_axes 3 (create_merchandise_pie_chart parse_float arab_countries
        imports_share ''2015'' ''imports'') (d3, w3) = (r4, d4, w4)"
    by (metis prod_cases3)
  have s1: "saved_files w1 = saved_files w"
    using on_axes_frame [OF a1] by simp
  have s2: "saved_files w2 = saved_files w"
    using on_axes_frame [OF a2] s1 by simp
  have s3: "saved_files w3 = saved_files w"
    using on_axes_frame [OF a3] s2 by simp
  have s4: "saved_files w4 = saved_files w"
    using on_axes_frame [OF a4] s3 by simp
  show ?thesis
    unfolding script_def Let_def Inr sum.case a1
    by (cases r1; cases r2; cases r3; cases r4) (simp_all add: a2 a3 a4 s1 s2 s3 s4 del: One_nat_def)
qed

text \<open>
  Claim C7.  When \<^verbatim>\<open>pd.read_csv\<close> raises for the input file (the file is absent or cannot
  be parsed), the loader raises the same exception, the script ends with it and does
  nothing more: the four axes stay empty, no text is put on the figure, the window is
  not shown and no image file is written.  (No run of the script writes a file: the
  call of \<^verbatim>\<open>plt.savefig\<close> is commented out.)
\<close>

theorem load_failure_propagates:
  assumes "read_csv filename = Inl e"
  shows "read_export_import_data read_csv filename = Inl e
         \<and> (\<exists>w'. script read_csv parse_float w = (Some e, w')
                 \<and> saved_files w' = saved_files w
                 \<and> shown w' = shown w
                 \<and> fig_texts w' = fig_texts w
                 \<and> axs w' = replicate 4 [])"
  using assms by (simp add: script_def read_export_import_data_def Let_def)

theorem load_failure_propagates_witness:
  "read_export_import_data (\<lambda>path. Inl FileNotFoundError) filename = Inl FileNotFoundError
   \<and> (\<exists>w'. script (\<lambda>path. Inl FileNotFoundError) (\<lambda>t. None)
                  \<lparr>axs = [], fig_texts = [], style = [], saved_files = [], shown = False\<rparr>
                = (Some FileNotFoundError, w')
           \<and> saved_files w' = [] \<and> shown w' = False \<and> fig_texts w' = []
           \<and> axs w' = [[], [], [], []])"
  using load_failure_propagates [where read_csv = "\<lambda>path. Inl FileNotFoundError"
      and e = FileNotFoundError and parse_float = "\<lambda>t. None"
      and w = "\<lparr>axs = [], fig_texts = [], style = [], saved_files = [], shown = False\<rparr>",
      OF refl]
  by (simp add: numeral_eq_Suc)


section \<open>The line renderer\<close>














section \<open>The bar renderer\<close>



























end
